theory Spec2Isabelle
  imports Main "HOL-Library.Sublist" "HOL-Library.Char_ord" "HOL-Library.List_Lexorder"
begin

section \<open>Python values and strings\<close>

text \<open>
  The time tool of \<^verbatim>\<open>adk_agent/agent.py\<close> is called by the agent framework with
  whatever the language model put into the call, so its argument is a Python value, not
  always a string. The values modelled are the ones such a call can carry: \<^verbatim>\<open>None\<close>,
  booleans, integers, strings, lists and dicts (floats are left out). A dict is an
  association list in insertion order.

  A Python \<^verbatim>\<open>str\<close> is a list of code points. It is modelled as a \<^typ>\<open>string\<close>, one
  \<^typ>\<open>char\<close> per code point, which covers the code points below 256; the identifiers of
  the IANA database are ASCII.
\<close>

datatype pyval =
    PyNone
  | PyBool bool
  | PyInt int
  | PyStr string
  | PyList "pyval list"
  | PyDict "(string \<times> pyval) list"

type_synonym pydict = "(string \<times> pyval) list"

text \<open>An exception carries the text that \<^verbatim>\<open>str(e)\<close> gives.\<close>

datatype exn = Exception string

text \<open>\<^verbatim>\<open>not city\<close> tests the truth value of the argument.\<close>

fun truthy :: "pyval \<Rightarrow> bool" where
  "truthy PyNone = False"
| "truthy (PyBool b) = b"
| "truthy (PyInt i) = (i \<noteq> 0)"
| "truthy (PyStr s) = (s \<noteq> [])"
| "truthy (PyList xs) = (xs \<noteq> [])"
| "truthy (PyDict d) = (d \<noteq> [])"

text \<open>\<^verbatim>\<open>isinstance(city, str)\<close>\<close>

fun isinstance_str :: "pyval \<Rightarrow> bool" where
  "isinstance_str (PyStr s) = True"
| "isinstance_str v = False"

text \<open>
  \<^verbatim>\<open>str.isspace\<close> on one character: below 256 the whitespace code points are
  9 to 13, 28 to 32, 133 and 160.
\<close>

definition isspace :: "char \<Rightarrow> bool" where
  "isspace c =
     (let n = (of_char c :: nat)
      in (9 \<le> n \<and> n \<le> 13) \<or> (28 \<le> n \<and> n \<le> 32) \<or> n = 133 \<or> n = 160)"

text \<open>\<^verbatim>\<open>s.strip()\<close> removes the leading and the trailing whitespace.\<close>

definition lstrip :: "string \<Rightarrow> string" where
  "lstrip s = dropWhile isspace s"

definition rstrip :: "string \<Rightarrow> string" where
  "rstrip s = rev (dropWhile isspace (rev s))"

definition strip :: "string \<Rightarrow> string" where
  "strip s = lstrip (rstrip s)"

text \<open>
  \<^verbatim>\<open>s.replace(old, new)\<close> where both arguments are one character long, the
  only way the source calls it.
\<close>

definition replace :: "char \<Rightarrow> char \<Rightarrow> string \<Rightarrow> string" where
  "replace old new s = map (\<lambda>c. if c = old then new else c) s"

text \<open>
  \<^verbatim>\<open>re.sub(r"_+", "_", s)\<close>: scanning from the left, every maximal run of
  underscores is replaced by one underscore.
\<close>

function sub_underscores :: "string \<Rightarrow> string" where
  "sub_underscores [] = []"
| "sub_underscores (c # cs) =
     (if c = CHR ''_''
      then CHR ''_'' # sub_underscores (dropWhile (\<lambda>x. x = CHR ''_'') cs)
      else c # sub_underscores cs)"
  by pat_completeness auto
termination
  by (relation "measure length") (auto simp: less_Suc_eq_le length_dropWhile_le)

text \<open>
  \<^verbatim>\<open>str.lower\<close> on one character: below 256 the letters A to Z and the
  code points 192 to 222 other than 215 move up by 32, everything else stays.
\<close>

definition lower_char :: "char \<Rightarrow> char" where
  "lower_char c =
     (let n = (of_char c :: nat)
      in if (65 \<le> n \<and> n \<le> 90) \<or> (192 \<le> n \<and> n \<le> 222 \<and> n \<noteq> 215)
         then char_of (n + 32) else c)"

definition lower :: "string \<Rightarrow> string" where
  "lower s = map lower_char s"

text \<open>
  \<^verbatim>\<open>s.split(sep)\<close> for a separator of one character. The result is never empty:
  a string without the separator gives the list of that one string.
\<close>

fun split :: "char \<Rightarrow> string \<Rightarrow> string list" where
  "split sep [] = [[]]"
| "split sep (c # cs) =
     (if c = sep then [] # split sep cs
      else (case split sep cs of
              [] \<Rightarrow> [[c]]
            | w # ws \<Rightarrow> (c # w) # ws))"

text \<open>\<^verbatim>\<open>a in b\<close> on strings: \<open>a\<close> occurs in \<open>b\<close> as a contiguous piece.\<close>

fun str_in :: "string \<Rightarrow> string \<Rightarrow> bool" where
  "str_in a [] = (a = [])"
| "str_in a (c # cs) = (prefix a (c # cs) \<or> str_in a cs)"

text \<open>
  \<^verbatim>\<open>xs[i]\<close> for an index that is not negative; out of range it raises
  \<^verbatim>\<open>IndexError\<close>.
\<close>

definition py_index :: "'a list \<Rightarrow> nat \<Rightarrow> exn + 'a" where
  "py_index xs i =
     (if i < length xs then Inr (xs ! i) else Inl (Exception ''list index out of range''))"

section \<open>The host: timezone catalog, zone construction and clock\<close>

text \<open>
  What the tool reads from its host. \<^verbatim>\<open>available_timezones()\<close> returns a set of
  strings, which the source walks in the set's iteration order: the field is the list of
  its members in that order. \<^verbatim>\<open>ZoneInfo(key)\<close> gives a zone object or raises.
  \<^verbatim>\<open>datetime.datetime.now(tz).strftime("%Y-%m-%d %H:%M:%S %Z%z")\<close> reads the
  clock: the field \<open>now_strftime\<close> is the text it gives for a zone at the time of the call.
  Whether an identifier is in the catalog and whether its zone can be constructed are two
  facts about the host, and nothing here ties them together.
\<close>

datatype tzinfo = TzInfo string

record host =
  available_timezones :: "string list"
  ZoneInfo :: "string \<Rightarrow> exn + tzinfo"
  now_strftime :: "tzinfo \<Rightarrow> string"

section \<open>The time tool\<close>

definition normalize_city :: "string \<Rightarrow> string" where
  "normalize_city s =
     sub_underscores (replace (CHR ''-'') (CHR ''_'') (replace (CHR '' '') (CHR ''_'') (strip s)))"

definition search_timezones_by_city :: "host \<Rightarrow> string \<Rightarrow> string list" where
  "search_timezones_by_city h city =
     (let norm = normalize_city city;
          tzs = available_timezones h;
          exact = filter (\<lambda>tz. lower (last (split (CHR ''/'') tz)) = lower norm) tzs
      in if exact \<noteq> [] then exact
         else filter (\<lambda>tz. str_in (lower norm) (lower (last (split (CHR ''/'') tz)))) tzs)"

text \<open>
  The four error messages of \<open>get_current_time\<close>; the last three are f-strings over the
  query, and the apostrophe is the character \<open>0x27\<close>.
  \<^item> \<^verbatim>\<open>"Input must be a non-empty city or IANA timezone string."\<close>
  \<^item> \<^verbatim>\<open>f"Sorry, I couldn't resolve a timezone for '{city}'. Try an IANA name like 'Asia/Taipei'."\<close>
  \<^item> \<^verbatim>\<open>f"Multiple timezones matched '{city}'. Please choose one from 'candidates'."\<close>
  \<^item> \<^verbatim>\<open>f"Failed to get time for '{city}' via timezone '{tz_name}': {e}"\<close>
\<close>

definition input_message :: string where
  "input_message = ''Input must be a non-empty city or IANA timezone string.''"

definition unresolved_message :: "string \<Rightarrow> string" where
  "unresolved_message city =
     ''Sorry, I couldn'' @ [CHR 0x27] @ ''t resolve a timezone for '' @ [CHR 0x27] @ city
     @ [CHR 0x27] @ ''. Try an IANA name like '' @ [CHR 0x27] @ ''Asia/Taipei'' @ [CHR 0x27]
     @ ''.''"

definition multiple_message :: "string \<Rightarrow> string" where
  "multiple_message city =
     ''Multiple timezones matched '' @ [CHR 0x27] @ city @ [CHR 0x27]
     @ ''. Please choose one from '' @ [CHR 0x27] @ ''candidates'' @ [CHR 0x27] @ ''.''"

definition failed_message :: "string \<Rightarrow> string \<Rightarrow> string \<Rightarrow> string" where
  "failed_message city tz_name e =
     ''Failed to get time for '' @ [CHR 0x27] @ city @ [CHR 0x27] @ '' via timezone ''
     @ [CHR 0x27] @ tz_name @ [CHR 0x27] @ '': '' @ e"

text \<open>
  The body of the two \<^verbatim>\<open>try\<close> blocks: construct the zone, read the clock, build the
  success dict. \<open>city\<close> is the text of the query and \<open>tz_name\<close> the identifier the zone is
  built from (the query itself in the first block); an exception leaves the block.
\<close>

definition try_zone :: "host \<Rightarrow> string \<Rightarrow> string \<Rightarrow> exn + pydict" where
  "try_zone h city tz_name =
     (case ZoneInfo h tz_name of
        Inl e \<Rightarrow> Inl e
      | Inr tz \<Rightarrow>
          Inr [(''status'', PyStr ''success''),
               (''report'', PyStr (''The current time in '' @ city @ '' is '' @ now_strftime h tz)),
               (''timezone'', PyStr tz_name),
               (''candidates'', PyNone)])"

text \<open>
  \<open>get_current_time\<close> from the candidate list on (the source's lines 95 to 122): no
  candidate, several candidates, or the single one, read with \<^verbatim>\<open>candidates[0]\<close>.
\<close>

definition from_candidates :: "host \<Rightarrow> string \<Rightarrow> string list \<Rightarrow> exn + pydict" where
  "from_candidates h city candidates =
     (if candidates = [] then
        Inr [(''status'', PyStr ''error''),
             (''error_message'', PyStr (unresolved_message city))]
      else if length candidates > 1 then
        Inr [(''status'', PyStr ''error''),
             (''error_message'', PyStr (multiple_message city)),
             (''candidates'', PyList (map PyStr (take 10 (sort candidates))))]
      else
        (case py_index candidates 0 of
           Inl e \<Rightarrow> Inl e
         | Inr tz_name \<Rightarrow>
             (case try_zone h city tz_name of
                Inr r \<Rightarrow> Inr r
              | Inl (Exception e) \<Rightarrow>
                  Inr [(''status'', PyStr ''error''),
                       (''error_message'', PyStr (failed_message city tz_name e))])))"

text \<open>
  The whole function. A value that passed the guard is a string; were another value to
  reach \<^verbatim>\<open>"/" in city\<close> or \<^verbatim>\<open>city.strip()\<close>, Python would raise.
\<close>

definition get_current_time :: "host \<Rightarrow> pyval \<Rightarrow> exn + pydict" where
  "get_current_time h city =
     (if \<not> truthy city \<or> \<not> isinstance_str city then
        Inr [(''status'', PyStr ''error''),
             (''error_message'', PyStr input_message)]
      else
        (case city of
           PyStr s \<Rightarrow>
             (if CHR ''/'' \<in> set s then
                (case try_zone h s s of
                   Inr r \<Rightarrow> Inr r
                 | Inl e \<Rightarrow> from_candidates h s (search_timezones_by_city h s))
              else from_candidates h s (search_timezones_by_city h s))
         | _ \<Rightarrow> Inl (Exception ''TypeError'')))"

section \<open>Reading a result\<close>

text \<open>
  The specification names three outcomes. On the dict the tool returns they are read
  off as follows: a success has status \<^verbatim>\<open>"success"\<close>, a report and the timezone
  used; an ambiguous result has status \<^verbatim>\<open>"error"\<close> and a list of candidates; a
  failure has status \<^verbatim>\<open>"error"\<close>, a message and no candidates.
\<close>

definition is_success :: "pydict \<Rightarrow> string \<Rightarrow> bool" where
  "is_success r tz =
     (map_of r ''status'' = Some (PyStr ''success'')
      \<and> map_of r ''timezone'' = Some (PyStr tz)
      \<and> (case map_of r ''report'' of Some (PyStr rep) \<Rightarrow> True | _ \<Rightarrow> False))"

definition is_ambiguous :: "pydict \<Rightarrow> string list \<Rightarrow> bool" where
  "is_ambiguous r cs =
     (map_of r ''status'' = Some (PyStr ''error'')
      \<and> map_of r ''candidates'' = Some (PyList (map PyStr cs)))"

definition is_failure :: "pydict \<Rightarrow> string \<Rightarrow> bool" where
  "is_failure r msg =
     (map_of r ''status'' = Some (PyStr ''error'')
      \<and> map_of r ''error_message'' = Some (PyStr msg)
      \<and> map_of r ''candidates'' = None)"

text \<open>
  A well-formed result carries a status that is one of the two words, and with it the
  fields its docstring promises: report and timezone on success, a message on error.
\<close>

definition well_formed :: "pydict \<Rightarrow> bool" where
  "well_formed r =
     (case map_of r ''status'' of
        Some (PyStr st) \<Rightarrow>
          if st = ''success'' then
            (case (map_of r ''report'', map_of r ''timezone'') of
               (Some (PyStr rep), Some (PyStr tz)) \<Rightarrow> True
             | _ \<Rightarrow> False)
          else if st = ''error'' then
            (case map_of r ''error_message'' of Some (PyStr msg) \<Rightarrow> True | _ \<Rightarrow> False)
          else False
      | _ \<Rightarrow> False)"

text \<open>
  The final path segment in the specification's words: what follows the last \<open>/\<close> of
  an identifier, the whole identifier when it has none.
\<close>

definition final_segment :: "string \<Rightarrow> string" where
  "final_segment tz = rev (takeWhile (\<lambda>c. c \<noteq> CHR ''/'') (rev tz))"

section \<open>Queries that say the same city\<close>

text \<open>
  The separators of a city name are the space, the hyphen and the underscore. A
  separator stands between two parts of the name: there is a character that is not
  whitespace before it and one after it.
\<close>

definition is_sep :: "char \<Rightarrow> bool" where
  "is_sep c = (c = CHR '' '' \<or> c = CHR ''-'' \<or> c = CHR ''_'')"

definition has_text :: "string \<Rightarrow> bool" where
  "has_text s = (\<exists>c \<in> set s. \<not> isspace c)"

text \<open>
  Two queries differ only in form when one comes from the other by steps of four kinds:
  whitespace put around it, one separator written for another, a separator repeated, and
  letters in another case.
\<close>

inductive same_city :: "string \<Rightarrow> string \<Rightarrow> bool" where
  surround: "\<forall>c \<in> set pre. isspace c \<Longrightarrow> \<forall>c \<in> set post. isspace c
               \<Longrightarrow> same_city q (pre @ q @ post)"
| separator: "is_sep c \<Longrightarrow> is_sep c' \<Longrightarrow> has_text xs \<Longrightarrow> has_text ys
               \<Longrightarrow> same_city (xs @ c # ys) (xs @ c' # ys)"
| repeated: "is_sep c \<Longrightarrow> is_sep c' \<Longrightarrow> has_text xs \<Longrightarrow> has_text ys
               \<Longrightarrow> same_city (xs @ c # ys) (xs @ c # c' # ys)"
| letter_case: "lower q = lower q' \<Longrightarrow> same_city q q'"
| sym: "same_city q q' \<Longrightarrow> same_city q' q"
| trans: "same_city q q' \<Longrightarrow> same_city q' q'' \<Longrightarrow> same_city q q''"

section \<open>Example hosts\<close>

text \<open>A host with fourteen zones, all of which can be constructed, and a fixed clock.\<close>

definition example_catalog :: "string list" where
  "example_catalog =
     [''Europe/London'', ''Asia/Taipei'', ''UTC'', ''America/New_York'', ''Etc/UTC'',
      ''Etc/GMT+1'', ''GMT'', ''America/Los_Angeles'', ''Asia/Tokyo'', ''Japan'',
      ''Etc/GMT'', ''Europe/Paris'', ''Africa/Cairo'', ''Australia/Sydney'']"

definition example_host :: host where
  "example_host =
     \<lparr>available_timezones = example_catalog,
      ZoneInfo = (\<lambda>key. if key \<in> set example_catalog then Inr (TzInfo key)
                         else Inl (Exception (''No time zone found with key '' @ key))),
      now_strftime = (\<lambda>tz. ''2025-01-01 00:00:00 UTC+0000'')\<rparr>"


text \<open>A host whose catalog lists two zones, neither of which can be read.\<close>

definition broken_host :: host where
  "broken_host =
     \<lparr>available_timezones = [''Europe/London'', ''Asia/Taipei''],
      ZoneInfo = (\<lambda>key. Inl (Exception ''Invalid TZif file'')),
      now_strftime = (\<lambda>tz. ''2025-01-01 00:00:00 UTC+0000'')\<rparr>"

section \<open>Facts about the string operations\<close>

subsection \<open>Characters\<close>

lemma of_char_lower_char:
  "(of_char (lower_char c) :: nat) =
     (if (65 \<le> (of_char c :: nat) \<and> (of_char c :: nat) \<le> 90)
         \<or> (192 \<le> (of_char c :: nat) \<and> (of_char c :: nat) \<le> 222 \<and> (of_char c :: nat) \<noteq> 215)
      then of_char c + 32 else of_char c)"
  by (auto simp: lower_char_def Let_def of_char_of)

lemma char_eq_of_char: "(c = d) = ((of_char c :: nat) = of_char d)"
  by auto

lemma lower_char_slash [simp]: "lower_char c = CHR ''/'' \<longleftrightarrow> c = CHR ''/''"
  by (simp add: char_eq_of_char [of _ "CHR ''/''"] of_char_lower_char)

lemma lower_char_space [simp]: "lower_char c = CHR '' '' \<longleftrightarrow> c = CHR '' ''"
  by (simp add: char_eq_of_char [of _ "CHR '' ''"] of_char_lower_char)

lemma lower_char_hyphen [simp]: "lower_char c = CHR ''-'' \<longleftrightarrow> c = CHR ''-''"
  by (simp add: char_eq_of_char [of _ "CHR ''-''"] of_char_lower_char)

lemma lower_char_underscore [simp]: "lower_char c = CHR ''_'' \<longleftrightarrow> c = CHR ''_''"
  by (simp add: char_eq_of_char [of _ "CHR ''_''"] of_char_lower_char)

lemma isspace_lower_char [simp]: "isspace (lower_char c) = isspace c"
  unfolding isspace_def Let_def of_char_lower_char by auto


lemma isspace_space [simp]: "isspace (CHR '' '')"
  by (simp add: isspace_def)

lemma not_isspace_hyphen [simp]: "\<not> isspace (CHR ''-'')"
  by (simp add: isspace_def)

lemma not_isspace_underscore [simp]: "\<not> isspace (CHR ''_'')"
  by (simp add: isspace_def)

subsection \<open>strip\<close>

lemma lstrip_Cons: "lstrip (c # cs) = (if isspace c then lstrip cs else c # cs)"
  by (simp add: lstrip_def)

lemma rstrip_Cons:
  "rstrip (c # cs) = (if isspace c \<and> (\<forall>x \<in> set cs. isspace x) then [] else c # rstrip cs)"
  by (auto simp: rstrip_def dropWhile_append)


lemma lstrip_all_space: "\<forall>x \<in> set s. isspace x \<Longrightarrow> lstrip s = []"
  by (simp add: lstrip_def)

lemma set_rstrip_subset: "set (rstrip s) \<subseteq> set s"
  by (auto simp: rstrip_def dest: set_dropWhileD)

lemma lstrip_rstrip_commute: "lstrip (rstrip s) = rstrip (lstrip s)"
proof (induction s)
  case Nil
  show ?case by (simp add: lstrip_def rstrip_def)
next
  case (Cons c cs)
  show ?case
  proof (cases "isspace c")
    case True
    show ?thesis
    proof (cases "\<forall>x \<in> set cs. isspace x")
      case all: True
      then have "lstrip cs = []" by (rule lstrip_all_space)
      with True all show ?thesis
        by (simp add: rstrip_Cons lstrip_Cons) (simp add: lstrip_def rstrip_def)
    next
      case False
      with True Cons show ?thesis
        by (auto simp: rstrip_Cons lstrip_Cons)
    qed
  next
    case False
    then show ?thesis by (simp add: rstrip_Cons lstrip_Cons)
  qed
qed


lemma lstrip_prepend: "\<forall>c \<in> set pre. isspace c \<Longrightarrow> lstrip (pre @ s) = lstrip s"
  by (auto simp: lstrip_def dropWhile_append)

lemma rstrip_append: "\<forall>c \<in> set post. isspace c \<Longrightarrow> rstrip (s @ post) = rstrip s"
  by (auto simp: rstrip_def dropWhile_append)

lemma strip_surround:
  assumes "\<forall>c \<in> set pre. isspace c" and "\<forall>c \<in> set post. isspace c"
  shows "strip (pre @ q @ post) = strip q"
proof -
  have "strip (pre @ q @ post) = lstrip (rstrip ((pre @ q) @ post))"
    by (simp add: strip_def)
  also have "\<dots> = lstrip (rstrip (pre @ q))"
    using assms(2) by (simp only: rstrip_append)
  also have "\<dots> = rstrip (lstrip (pre @ q))"
    by (rule lstrip_rstrip_commute)
  also have "\<dots> = rstrip (lstrip q)"
    using assms(1) by (simp only: lstrip_prepend)
  also have "\<dots> = strip q"
    by (simp add: strip_def lstrip_rstrip_commute)
  finally show ?thesis .
qed

lemma lstrip_has_text: "has_text xs \<Longrightarrow> lstrip (xs @ zs) = lstrip xs @ zs"
  by (auto simp: has_text_def lstrip_def dropWhile_append1)

lemma rstrip_has_text: "has_text ys \<Longrightarrow> rstrip (zs @ ys) = zs @ rstrip ys"
  by (auto simp: has_text_def rstrip_def dropWhile_append1)

lemma strip_inner:
  assumes "has_text xs" and "has_text ys"
  shows "strip (xs @ zs @ ys) = lstrip xs @ zs @ rstrip ys"
proof -
  have "rstrip (xs @ zs @ ys) = (xs @ zs) @ rstrip ys"
    using rstrip_has_text [OF assms(2), of "xs @ zs"] by simp
  then show ?thesis
    using lstrip_has_text [OF assms(1), of "zs @ rstrip ys"] by (simp add: strip_def)
qed

lemma strip_keeps_text: "\<not> isspace c \<Longrightarrow> c \<in> set s \<Longrightarrow> c \<in> set (strip s)"
proof -
  assume c: "\<not> isspace c" "c \<in> set s"
  then obtain xs ys where s: "s = xs @ c # ys" by (auto simp: in_set_conv_decomp)
  have "c \<in> set (rstrip s)"
    unfolding s rstrip_def using c(1)
    by (auto simp: dropWhile_append)
  then obtain us vs where r: "rstrip s = us @ c # vs" by (auto simp: in_set_conv_decomp)
  show ?thesis unfolding strip_def lstrip_def r using c(1)
    by (auto simp: dropWhile_append)
qed

lemma map_lower_lstrip: "map lower_char (lstrip s) = lstrip (map lower_char s)"
  by (simp add: lstrip_def dropWhile_map comp_def)

lemma map_lower_rstrip: "map lower_char (rstrip s) = rstrip (map lower_char s)"
  by (simp add: rstrip_def dropWhile_map comp_def rev_map)

lemma lower_strip: "lower (strip s) = strip (lower s)"
  by (simp add: lower_def strip_def map_lower_lstrip map_lower_rstrip)

subsection \<open>replace and the underscore runs\<close>

lemma sub_underscores_Cons:
  "sub_underscores (c # cs) =
     (if c = CHR ''_'' \<and> cs \<noteq> [] \<and> hd cs = CHR ''_'' then sub_underscores cs
      else c # sub_underscores cs)"
  by (cases cs) auto

lemma set_sub_underscores [simp]: "set (sub_underscores s) = set s"
proof (induction s)
  case Nil
  show ?case by simp
next
  case (Cons c cs)
  show ?case
  proof (cases "c = CHR ''_'' \<and> cs \<noteq> [] \<and> hd cs = CHR ''_''")
    case True
    then have "c \<in> set cs" by (cases cs) auto
    with True Cons show ?thesis
      by (simp only: sub_underscores_Cons if_True) auto
  next
    case False
    with Cons show ?thesis
      by (simp only: sub_underscores_Cons if_False) auto
  qed
qed

lemma sub_underscores_Nil_iff [simp]: "sub_underscores s = [] \<longleftrightarrow> s = []"
  by (cases s) auto

lemma sub_underscores_double:
  "sub_underscores (xs @ CHR ''_'' # CHR ''_'' # ys) = sub_underscores (xs @ CHR ''_'' # ys)"
proof (induction xs)
  case Nil
  show ?case by simp
next
  case (Cons x xs)
  have hd_eq: "hd (xs @ CHR ''_'' # CHR ''_'' # ys) = hd (xs @ CHR ''_'' # ys)"
    by (cases xs) auto
  show ?case
    using Cons hd_eq by (simp only: append_Cons sub_underscores_Cons) simp
qed

lemma lower_sub_underscores:
  "map lower_char (sub_underscores s) = sub_underscores (map lower_char s)"
proof (induction s)
  case Nil
  show ?case by simp
next
  case (Cons c cs)
  have hd_eq: "cs \<noteq> [] \<Longrightarrow> (hd (map lower_char cs) = CHR ''_'') = (hd cs = CHR ''_'')"
    by (cases cs) auto
  show ?case
    using Cons hd_eq by (simp only: list.map sub_underscores_Cons) auto
qed

lemma lower_replace:
  "lower_char new = new \<Longrightarrow> (\<And>c. lower_char c = old \<longleftrightarrow> c = old)
     \<Longrightarrow> map lower_char (replace old new s) = replace old new (map lower_char s)"
  by (simp add: replace_def)

lemma lower_underscore [simp]: "lower_char (CHR ''_'') = CHR ''_''"
  by (simp add: lower_char_def)

lemma lower_normalize_city: "lower (normalize_city s) = normalize_city (lower s)"
  by (simp add: normalize_city_def lower_def lower_sub_underscores lower_replace
        lower_strip [unfolded lower_def])

lemma replace_sep:
  "is_sep c \<Longrightarrow> replace (CHR ''-'') (CHR ''_'') (replace (CHR '' '') (CHR ''_'') [c]) = ''_''"
  by (auto simp: is_sep_def replace_def)

lemma replace_append: "replace a b (xs @ ys) = replace a b xs @ replace a b ys"
  by (simp add: replace_def)

lemma set_replace_other:
  "c \<noteq> old \<Longrightarrow> c \<noteq> new \<Longrightarrow> c \<in> set (replace old new s) \<longleftrightarrow> c \<in> set s"
  by (auto simp: replace_def)

lemma slash_in_normalize_city:
  assumes "CHR ''/'' \<in> set s"
  shows "CHR ''/'' \<in> set (normalize_city s)"
proof -
  have "\<not> isspace (CHR ''/'')" by (simp add: isspace_def)
  then have "CHR ''/'' \<in> set (strip s)" using assms by (rule strip_keeps_text)
  then show ?thesis by (simp add: normalize_city_def set_replace_other)
qed


lemma normalize_city_surround:
  "\<forall>c \<in> set pre. isspace c \<Longrightarrow> \<forall>c \<in> set post. isspace c
     \<Longrightarrow> normalize_city (pre @ q @ post) = normalize_city q"
  by (simp add: normalize_city_def strip_surround)

lemma normalize_city_inner:
  assumes "has_text xs" and "has_text ys"
  shows "normalize_city (xs @ zs @ ys) =
           sub_underscores
             (replace (CHR ''-'') (CHR ''_'') (replace (CHR '' '') (CHR ''_'') (lstrip xs))
              @ replace (CHR ''-'') (CHR ''_'') (replace (CHR '' '') (CHR ''_'') zs)
              @ replace (CHR ''-'') (CHR ''_'') (replace (CHR '' '') (CHR ''_'') (rstrip ys)))"
  by (simp add: normalize_city_def strip_inner [OF assms] replace_append)

lemma normalize_city_separator:
  assumes "is_sep c" and "is_sep c'" and "has_text xs" and "has_text ys"
  shows "normalize_city (xs @ c # ys) = normalize_city (xs @ c' # ys)"
  using normalize_city_inner [OF assms(3,4), of "[c]"]
    normalize_city_inner [OF assms(3,4), of "[c']"]
  by (simp add: replace_sep [OF assms(1)] replace_sep [OF assms(2)])

lemma normalize_city_repeated:
  assumes "is_sep c" and "is_sep c'" and "has_text xs" and "has_text ys"
  shows "normalize_city (xs @ c # ys) = normalize_city (xs @ c # c' # ys)"
proof -
  have two: "replace (CHR ''-'') (CHR ''_'') (replace (CHR '' '') (CHR ''_'') [c, c']) = ''__''"
    using assms(1,2) by (auto simp: is_sep_def replace_def)
  show ?thesis
    using normalize_city_inner [OF assms(3,4), of "[c]"]
      normalize_city_inner [OF assms(3,4), of "[c, c']"]
    by (simp add: replace_sep [OF assms(1)] two sub_underscores_double)
qed

lemma same_city_normalize:
  "same_city q q' \<Longrightarrow> lower (normalize_city q) = lower (normalize_city q')"
proof (induction rule: same_city.induct)
  case (surround pre post q)
  then show ?case by (simp add: normalize_city_surround)
next
  case (separator c c' xs ys)
  then show ?case by (simp add: normalize_city_separator [of c c'])
next
  case (repeated c c' xs ys)
  then show ?case by (simp add: normalize_city_repeated [of c c'])
next
  case (letter_case q q')
  then show ?case by (simp add: lower_normalize_city)
next
  case (sym q q')
  then show ?case by simp
next
  case (trans q q' q'')
  then show ?case by simp
qed

subsection \<open>split, the final segment and substrings\<close>

lemma split_not_Nil [simp]: "split sep s \<noteq> []"
  by (induction s) (auto split: list.splits)

lemma last_split_no_sep: "sep \<notin> set (last (split sep s))"
  by (induction s) (auto split: list.splits)

lemma split_append_sep: "split sep (xs @ sep # ys) = split sep xs @ split sep ys"
  by (induction xs) (auto split: list.splits)

lemma last_split_append_sep: "last (split sep (xs @ sep # ys)) = last (split sep ys)"
  by (simp add: split_append_sep)

lemma split_no_sep: "sep \<notin> set s \<Longrightarrow> split sep s = [s]"
  by (induction s) auto

lemma last_split_final_segment: "last (split (CHR ''/'') tz) = final_segment tz"
proof (cases "CHR ''/'' \<in> set tz")
  case False
  then have tw: "takeWhile (\<lambda>c. c \<noteq> CHR ''/'') (rev tz) = rev tz"
    by (intro takeWhile_eq_all_conv [THEN iffD2]) auto
  show ?thesis
    unfolding final_segment_def tw split_no_sep [OF False] by simp
next
  case True
  then obtain xs ys where tz: "tz = xs @ CHR ''/'' # ys" and ys: "CHR ''/'' \<notin> set ys"
    by (auto dest: split_list_last)
  have "takeWhile (\<lambda>c. c \<noteq> CHR ''/'') (rev ys @ CHR ''/'' # rev xs) = rev ys"
    using ys by (subst takeWhile_append2) auto
  with ys show ?thesis
    by (simp add: tz final_segment_def last_split_append_sep split_no_sep)
qed

lemma str_in_iff: "str_in a b \<longleftrightarrow> (\<exists>xs ys. b = xs @ a @ ys)"
proof -
  have "str_in a b \<longleftrightarrow> sublist a b"
    by (induction b) (auto simp: sublist_Cons_right)
  then show ?thesis by (simp add: sublist_def)
qed

lemma str_in_Nil [simp]: "str_in [] b"
  by (cases b) simp_all

lemma str_in_set: "str_in a b \<Longrightarrow> set a \<subseteq> set b"
  by (auto simp: str_in_iff)

lemma slash_in_lower [simp]: "CHR ''/'' \<in> set (lower s) \<longleftrightarrow> CHR ''/'' \<in> set s"
  unfolding lower_def set_map image_iff by (metis lower_char_slash)

section \<open>Facts about the time tool\<close>

lemma search_by_normalized:
  "lower (normalize_city q) = lower (normalize_city q')
     \<Longrightarrow> search_timezones_by_city h q = search_timezones_by_city h q'"
  unfolding search_timezones_by_city_def Let_def by simp

lemma search_slash_empty:
  assumes "CHR ''/'' \<in> set q"
  shows "search_timezones_by_city h q = []"
proof -
  let ?n = "lower (normalize_city q)"
  have n: "CHR ''/'' \<in> set ?n"
    using assms by (simp add: slash_in_normalize_city)
  have seg: "CHR ''/'' \<notin> set (lower (last (split (CHR ''/'') tz)))" for tz
    by (simp add: last_split_no_sep)
  have exact: "lower (last (split (CHR ''/'') tz)) \<noteq> ?n" for tz
    by (metis n seg)
  have partial: "\<not> str_in ?n (lower (last (split (CHR ''/'') tz)))" for tz
    by (metis n seg str_in_set subsetD)
  show ?thesis
    by (simp add: search_timezones_by_city_def exact partial)
qed

lemma get_current_time_str:
  "q \<noteq> [] \<Longrightarrow>
     get_current_time h (PyStr q) =
       (if CHR ''/'' \<in> set q then
          (case try_zone h q q of
             Inr r \<Rightarrow> Inr r
           | Inl e \<Rightarrow> from_candidates h q (search_timezones_by_city h q))
        else from_candidates h q (search_timezones_by_city h q))"
  by (simp add: get_current_time_def)

lemma get_current_time_invalid:
  "\<not> truthy v \<or> \<not> isinstance_str v \<Longrightarrow>
     get_current_time h v =
       Inr [(''status'', PyStr ''error''), (''error_message'', PyStr input_message)]"
  by (auto simp: get_current_time_def)

lemma from_candidates_Nil:
  "from_candidates h q [] =
     Inr [(''status'', PyStr ''error''), (''error_message'', PyStr (unresolved_message q))]"
  by (simp add: from_candidates_def)

lemma from_candidates_many:
  "2 \<le> length cs \<Longrightarrow>
     from_candidates h q cs =
       Inr [(''status'', PyStr ''error''),
            (''error_message'', PyStr (multiple_message q)),
            (''candidates'', PyList (map PyStr (take 10 (sort cs))))]"
  by (auto simp: from_candidates_def)

lemma from_candidates_one:
  "from_candidates h q [tz_name] =
     (case ZoneInfo h tz_name of
        Inr tz \<Rightarrow>
          Inr [(''status'', PyStr ''success''),
               (''report'', PyStr (''The current time in '' @ q @ '' is '' @ now_strftime h tz)),
               (''timezone'', PyStr tz_name),
               (''candidates'', PyNone)]
      | Inl (Exception e) \<Rightarrow>
          Inr [(''status'', PyStr ''error''),
               (''error_message'', PyStr (failed_message q tz_name e))])"
  by (simp add: from_candidates_def py_index_def try_zone_def split: sum.splits exn.splits)

lemma is_failure_unresolved:
  "is_failure [(''status'', PyStr ''error''), (''error_message'', PyStr msg)] msg' \<longleftrightarrow> msg = msg'"
  by (simp add: is_failure_def)

lemma unresolved_not_input: "unresolved_message q \<noteq> input_message"
  by (simp add: unresolved_message_def input_message_def)

text \<open>
  C9. A query with a \<open>/\<close> whose direct zone construction fails always ends as the
  unresolvable-name failure, never as a success or an ambiguous result: the \<open>/\<close>
  survives normalization, no final path segment has one, so no catalog entry matches in
  either pass.
\<close>

theorem slash_query_unresolved:
  assumes "CHR ''/'' \<in> set q" and "ZoneInfo h q = Inl e"
  shows "CHR ''/'' \<in> set (normalize_city q)
         \<and> (\<forall>tz. CHR ''/'' \<notin> set (last (split (CHR ''/'') tz)))
         \<and> search_timezones_by_city h q = []
         \<and> (\<exists>r. get_current_time h (PyStr q) = Inr r
                \<and> is_failure r (unresolved_message q)
                \<and> (\<forall>z. \<not> is_success r z) \<and> (\<forall>cs. \<not> is_ambiguous r cs))"
proof -
  have q: "q \<noteq> []" using assms(1) by auto
  have "get_current_time h (PyStr q) =
          Inr [(''status'', PyStr ''error''), (''error_message'', PyStr (unresolved_message q))]"
    using assms
    by (simp add: get_current_time_str [OF q] try_zone_def search_slash_empty from_candidates_Nil)
  moreover have "is_failure [(''status'', PyStr ''error''),
      (''error_message'', PyStr (unresolved_message q))] (unresolved_message q)"
    by (simp add: is_failure_def)
  moreover have "\<not> is_success [(''status'', PyStr ''error''),
      (''error_message'', PyStr (unresolved_message q))] z" for z
    by (simp add: is_success_def)
  moreover have "\<not> is_ambiguous [(''status'', PyStr ''error''),
      (''error_message'', PyStr (unresolved_message q))] cs" for cs
    by (simp add: is_ambiguous_def)
  ultimately show ?thesis
    using assms(1) by (simp add: slash_in_normalize_city last_split_no_sep search_slash_empty)
qed

theorem slash_query_unresolved_witness:
  "CHR ''/'' \<in> set ''Mars/Olympus''
   \<and> ZoneInfo example_host ''Mars/Olympus''
       = Inl (Exception ''No time zone found with key Mars/Olympus'')
   \<and> search_timezones_by_city example_host ''Mars/Olympus'' = []
   \<and> (\<exists>r. get_current_time example_host (PyStr ''Mars/Olympus'') = Inr r
          \<and> is_failure r (unresolved_message ''Mars/Olympus''))"
proof -
  have h1: "CHR ''/'' \<in> set ''Mars/Olympus''" by simp
  have h2: "ZoneInfo example_host ''Mars/Olympus''
              = Inl (Exception ''No time zone found with key Mars/Olympus'')"
    by (simp add: example_host_def example_catalog_def)
  show ?thesis
    using h1 h2 slash_query_unresolved [OF h1 h2] by blast
qed

text \<open>
  C6. An argument that is \<^verbatim>\<open>None\<close>, the empty string or not a string at all gets the
  input-validation failure, and the same one on every host: the catalog, the zone
  constructor and the clock play no part in it.
\<close>

theorem invalid_input_rejected:
  assumes "v = PyNone \<or> v = PyStr [] \<or> \<not> isinstance_str v"
  shows "\<exists>r. is_failure r input_message \<and> (\<forall>h. get_current_time h v = Inr r)"
proof -
  have guard: "\<not> truthy v \<or> \<not> isinstance_str v"
    using assms by auto
  have "is_failure [(''status'', PyStr ''error''), (''error_message'', PyStr input_message)]
          input_message"
    by (simp add: is_failure_def)
  then show ?thesis
    using get_current_time_invalid [OF guard] by blast
qed

theorem invalid_input_rejected_witness:
  "(\<exists>r. is_failure r input_message \<and> (\<forall>h. get_current_time h PyNone = Inr r))
   \<and> (\<exists>r. is_failure r input_message \<and> (\<forall>h. get_current_time h (PyStr []) = Inr r))
   \<and> \<not> isinstance_str (PyInt 5)
   \<and> (\<exists>r. is_failure r input_message \<and> (\<forall>h. get_current_time h (PyInt 5) = Inr r))"
  using invalid_input_rejected [of PyNone] invalid_input_rejected [of "PyStr []"]
    invalid_input_rejected [of "PyInt 5"]
  by simp

text \<open>
  C4. For a query with a \<open>/\<close>: when the zone of that name can be constructed, the
  result is a success whose timezone is the query as it was given; when the construction
  raises, the result is whatever the city-name search gives for the same query.
\<close>

theorem direct_identifier:
  assumes "CHR ''/'' \<in> set q"
  shows "(\<forall>tz. ZoneInfo h q = Inr tz \<longrightarrow>
            (\<exists>r. get_current_time h (PyStr q) = Inr r \<and> is_success r q))
         \<and> (\<forall>e. ZoneInfo h q = Inl e \<longrightarrow>
              get_current_time h (PyStr q)
                = from_candidates h q (search_timezones_by_city h q))"
proof -
  have q: "q \<noteq> []" using assms by auto
  show ?thesis
    using assms
    by (simp add: get_current_time_str [OF q] try_zone_def is_success_def)
qed

theorem direct_identifier_witness:
  "CHR ''/'' \<in> set ''Asia/Taipei''
   \<and> ZoneInfo example_host ''Asia/Taipei'' = Inr (TzInfo ''Asia/Taipei'')
   \<and> (\<exists>r. get_current_time example_host (PyStr ''Asia/Taipei'') = Inr r
          \<and> is_success r ''Asia/Taipei'')
   \<and> CHR ''/'' \<in> set ''Mars/Olympus''
   \<and> ZoneInfo example_host ''Mars/Olympus''
       = Inl (Exception ''No time zone found with key Mars/Olympus'')
   \<and> get_current_time example_host (PyStr ''Mars/Olympus'')
       = from_candidates example_host ''Mars/Olympus''
           (search_timezones_by_city example_host ''Mars/Olympus'')"
proof -
  have a1: "CHR ''/'' \<in> set ''Asia/Taipei''" by simp
  have a2: "ZoneInfo example_host ''Asia/Taipei'' = Inr (TzInfo ''Asia/Taipei'')"
    by (simp add: example_host_def example_catalog_def)
  have b1: "CHR ''/'' \<in> set ''Mars/Olympus''" by simp
  have b2: "ZoneInfo example_host ''Mars/Olympus''
              = Inl (Exception ''No time zone found with key Mars/Olympus'')"
    by (simp add: example_host_def example_catalog_def)
  show ?thesis
    using a1 a2 b1 b2 direct_identifier [OF a1, of example_host]
      direct_identifier [OF b1, of example_host]
    by simp
qed

text \<open>
  C7. A non-empty string for which both passes find nothing (and whose direct
  construction raised, when it has a \<open>/\<close>) gets the unresolvable-name failure, whose
  message is not that of the input-validation failure.
\<close>

theorem no_candidate_unresolved:
  assumes "q \<noteq> []"
    and "search_timezones_by_city h q = []"
    and "CHR ''/'' \<in> set q \<longrightarrow> (\<exists>e. ZoneInfo h q = Inl e)"
  shows "\<exists>r. get_current_time h (PyStr q) = Inr r
              \<and> is_failure r (unresolved_message q)
              \<and> \<not> is_failure r input_message"
proof -
  have "get_current_time h (PyStr q) =
          Inr [(''status'', PyStr ''error''), (''error_message'', PyStr (unresolved_message q))]"
    using assms(2,3)
    by (auto simp: get_current_time_str [OF assms(1)] try_zone_def from_candidates_Nil)
  then show ?thesis
    by (simp add: is_failure_unresolved unresolved_not_input)
qed

theorem no_candidate_unresolved_witness:
  "''Nonexistent_Place_Zzz'' \<noteq> []
   \<and> search_timezones_by_city example_host ''Nonexistent_Place_Zzz'' = []
   \<and> CHR ''/'' \<notin> set ''Nonexistent_Place_Zzz''
   \<and> (\<exists>r. get_current_time example_host (PyStr ''Nonexistent_Place_Zzz'') = Inr r
          \<and> is_failure r (unresolved_message ''Nonexistent_Place_Zzz'')
          \<and> \<not> is_failure r input_message)
   \<and> ''Mars/Olympus'' \<noteq> []
   \<and> search_timezones_by_city example_host ''Mars/Olympus'' = []
   \<and> ZoneInfo example_host ''Mars/Olympus''
       = Inl (Exception ''No time zone found with key Mars/Olympus'')
   \<and> (\<exists>r. get_current_time example_host (PyStr ''Mars/Olympus'') = Inr r
          \<and> is_failure r (unresolved_message ''Mars/Olympus'')
          \<and> \<not> is_failure r input_message)"
proof -
  have h1: "''Nonexistent_Place_Zzz'' \<noteq> []" by simp
  have h2: "search_timezones_by_city example_host ''Nonexistent_Place_Zzz'' = []"
    by code_simp
  have h3: "CHR ''/'' \<notin> set ''Nonexistent_Place_Zzz''" by simp
  have k1: "''Mars/Olympus'' \<noteq> []" by simp
  have k2: "search_timezones_by_city example_host ''Mars/Olympus'' = []"
    by code_simp
  have k3: "ZoneInfo example_host ''Mars/Olympus''
              = Inl (Exception ''No time zone found with key Mars/Olympus'')"
    by (simp add: example_host_def example_catalog_def)
  show ?thesis
    using h1 h2 h3 k1 k2 k3 no_candidate_unresolved [OF h1 h2]
      no_candidate_unresolved [OF k1 k2]
    by simp
qed

lemma search_several_no_slash:
  "search_timezones_by_city h q \<noteq> [] \<Longrightarrow> CHR ''/'' \<notin> set q"
  using search_slash_empty [of q h] by blast

lemma is_ambiguous_many:
  "is_ambiguous [(''status'', PyStr ''error''), (''error_message'', PyStr msg),
                 (''candidates'', PyList (map PyStr cs))] cs"
  by (simp add: is_ambiguous_def)


text \<open>
  C3. A non-empty query for which the search finds two or more candidates gets an
  ambiguous result; its candidates are the first ten of the sorted candidate list, so they
  ascend in the lexicographic order of strings and are at most ten.
\<close>

theorem several_candidates_ambiguous:
  assumes "q \<noteq> []" and "2 \<le> length (search_timezones_by_city h q)"
  shows "\<exists>r cs. get_current_time h (PyStr q) = Inr r
                 \<and> is_ambiguous r cs
                 \<and> cs = take 10 (sort (search_timezones_by_city h q))
                 \<and> sorted cs \<and> length cs \<le> 10"
proof -
  have "search_timezones_by_city h q \<noteq> []" using assms(2) by auto
  then have "CHR ''/'' \<notin> set q" by (rule search_several_no_slash)
  then have "get_current_time h (PyStr q) =
      Inr [(''status'', PyStr ''error''), (''error_message'', PyStr (multiple_message q)),
           (''candidates'',
            PyList (map PyStr (take 10 (sort (search_timezones_by_city h q)))))]"
    by (simp add: get_current_time_str [OF assms(1)] from_candidates_many [OF assms(2)])
  moreover have "sorted (take 10 (sort (search_timezones_by_city h q)))"
    by (simp add: sorted_wrt_take)
  ultimately show ?thesis
    using is_ambiguous_many by fastforce
qed

theorem several_candidates_ambiguous_witness:
  "''UTC'' \<noteq> []
   \<and> search_timezones_by_city example_host ''UTC'' = [''UTC'', ''Etc/UTC'']
   \<and> (\<exists>r cs. get_current_time example_host (PyStr ''UTC'') = Inr r
          \<and> is_ambiguous r cs
          \<and> cs = take 10 (sort (search_timezones_by_city example_host ''UTC''))
          \<and> sorted cs \<and> length cs \<le> 10)
   \<and> '' '' \<noteq> []
   \<and> length (search_timezones_by_city example_host '' '') = 14
   \<and> (\<exists>r cs. get_current_time example_host (PyStr '' '') = Inr r
          \<and> is_ambiguous r cs
          \<and> cs = take 10 (sort (search_timezones_by_city example_host '' ''))
          \<and> sorted cs \<and> length cs \<le> 10)"
proof -
  have a1: "''UTC'' \<noteq> []" by simp
  have a2: "search_timezones_by_city example_host ''UTC'' = [''UTC'', ''Etc/UTC'']"
    by code_simp
  have a3: "2 \<le> length (search_timezones_by_city example_host ''UTC'')"
    by (simp add: a2)
  have b1: "'' '' \<noteq> []" by simp
  have b2: "length (search_timezones_by_city example_host '' '') = 14"
    by code_simp
  have b3: "2 \<le> length (search_timezones_by_city example_host '' '')"
    by (simp add: b2)
  show ?thesis
    using a1 a2 b1 b2 several_candidates_ambiguous [OF a1 a3]
      several_candidates_ambiguous [OF b1 b3]
    by simp
qed










lemma try_zone_well_formed: "try_zone h q tz_name = Inr r \<Longrightarrow> well_formed r"
  by (auto simp: try_zone_def well_formed_def split: sum.splits)

lemma from_candidates_returns: "\<exists>r. from_candidates h q cs = Inr r \<and> well_formed r"
proof (cases cs)
  case Nil
  then show ?thesis
    by (simp add: from_candidates_Nil well_formed_def)
next
  case (Cons tz_name rest)
  show ?thesis
  proof (cases rest)
    case Nil
    show ?thesis
    proof (cases "ZoneInfo h tz_name")
      case (Inl e)
      then show ?thesis
        unfolding Cons Nil from_candidates_one
        by (cases e) (simp add: well_formed_def)
    next
      case (Inr tz)
      then show ?thesis
        unfolding Cons Nil from_candidates_one
        by (simp add: well_formed_def)
    qed
  next
    case (Cons tz_name' rest')
    then have "2 \<le> length cs" using \<open>cs = tz_name # rest\<close> by simp
    then show ?thesis
      by (simp add: from_candidates_many well_formed_def)
  qed
qed

lemma get_current_time_returns: "\<exists>r. get_current_time h v = Inr r \<and> well_formed r"
proof (cases "\<not> truthy v \<or> \<not> isinstance_str v")
  case True
  then show ?thesis
    by (simp add: get_current_time_invalid well_formed_def)
next
  case False
  then obtain q where v: "v = PyStr q" and q: "q \<noteq> []"
    by (cases v) auto
  show ?thesis
  proof (cases "CHR ''/'' \<in> set q")
    case True
    show ?thesis
    proof (cases "try_zone h q q")
      case (Inl e)
      with True show ?thesis
        by (simp add: v get_current_time_str [OF q] from_candidates_returns)
    next
      case (Inr r)
      with True show ?thesis
        by (simp add: v get_current_time_str [OF q] try_zone_well_formed)
    qed
  next
    case False
    then show ?thesis
      by (simp add: v get_current_time_str [OF q] from_candidates_returns)
  qed
qed

text \<open>
  C8. Whatever the argument and whatever the host, \<open>get_current_time\<close> returns a dict
  and raises nothing: the dict has a status of \<^verbatim>\<open>"success"\<close> with report and
  timezone, or of \<^verbatim>\<open>"error"\<close> with a message. In particular, when the search finds
  one candidate and the construction of its zone raises, the exception is caught and its
  text is returned in the message.
\<close>

theorem never_raises:
  "(\<exists>r. get_current_time h v = Inr r \<and> well_formed r)
   \<and> (\<forall>q tz_name e. q \<noteq> [] \<and> search_timezones_by_city h q = [tz_name]
          \<and> ZoneInfo h tz_name = Inl (Exception e)
        \<longrightarrow> get_current_time h (PyStr q)
              = Inr [(''status'', PyStr ''error''),
                     (''error_message'', PyStr (failed_message q tz_name e))])"
proof -
  have "get_current_time h (PyStr q)
          = Inr [(''status'', PyStr ''error''),
                 (''error_message'', PyStr (failed_message q tz_name e))]"
    if q: "q \<noteq> []" and s: "search_timezones_by_city h q = [tz_name]"
      and z: "ZoneInfo h tz_name = Inl (Exception e)" for q tz_name e
  proof -
    have "search_timezones_by_city h q \<noteq> []" using s by simp
    then have "CHR ''/'' \<notin> set q" by (rule search_several_no_slash)
    then show ?thesis
      by (simp add: get_current_time_str [OF q] s from_candidates_one z)
  qed
  then show ?thesis
    using get_current_time_returns [of h v] by blast
qed

theorem never_raises_witness:
  "(\<exists>r. get_current_time broken_host (PyList [PyInt 1]) = Inr r \<and> well_formed r)
   \<and> ''Taipei'' \<noteq> []
   \<and> search_timezones_by_city broken_host ''Taipei'' = [''Asia/Taipei'']
   \<and> ZoneInfo broken_host ''Asia/Taipei'' = Inl (Exception ''Invalid TZif file'')
   \<and> get_current_time broken_host (PyStr ''Taipei'')
       = Inr [(''status'', PyStr ''error''),
              (''error_message'',
               PyStr (failed_message ''Taipei'' ''Asia/Taipei'' ''Invalid TZif file''))]"
proof -
  have h1: "''Taipei'' \<noteq> []" by simp
  have h2: "search_timezones_by_city broken_host ''Taipei'' = [''Asia/Taipei'']"
    by code_simp
  have h3: "ZoneInfo broken_host ''Asia/Taipei'' = Inl (Exception ''Invalid TZif file'')"
    by (simp add: broken_host_def)
  show ?thesis
    using h1 h2 h3 never_raises [of broken_host "PyList [PyInt 1]"]
    by blast
qed

text \<open>
  C2. With \<open>E\<close> the catalog entries whose final segment equals the normalized query
  when both are lowered, and \<open>P\<close> those whose lowered final segment has the lowered
  normalized query as a contiguous piece: the candidates are exactly \<open>E\<close> when \<open>E\<close>
  has a member, however many, and exactly \<open>P\<close> when \<open>E\<close> is empty.
\<close>

theorem exact_before_partial:
  "set (search_timezones_by_city h q) =
     (if \<exists>tz \<in> set (available_timezones h).
           lower (final_segment tz) = lower (normalize_city q)
      then {tz \<in> set (available_timezones h).
              lower (final_segment tz) = lower (normalize_city q)}
      else {tz \<in> set (available_timezones h).
              \<exists>xs ys. lower (final_segment tz) = xs @ lower (normalize_city q) @ ys})"
  by (auto simp: search_timezones_by_city_def Let_def last_split_final_segment str_in_iff
        filter_empty_conv)

theorem exact_before_partial_witness:
  "set (search_timezones_by_city example_host ''gmt'') = {''GMT'', ''Etc/GMT''}
   \<and> (\<exists>tz \<in> set (available_timezones example_host).
          lower (final_segment tz) = lower (normalize_city ''gmt''))
   \<and> set (search_timezones_by_city example_host ''gmt'') =
       {tz \<in> set (available_timezones example_host).
          lower (final_segment tz) = lower (normalize_city ''gmt'')}
   \<and> ''Etc/GMT+1'' \<in> {tz \<in> set (available_timezones example_host).
          \<exists>xs ys. lower (final_segment tz) = xs @ lower (normalize_city ''gmt'') @ ys}
   \<and> ''Etc/GMT+1'' \<notin> set (search_timezones_by_city example_host ''gmt'')
   \<and> \<not> (\<exists>tz \<in> set (available_timezones example_host).
          lower (final_segment tz) = lower (normalize_city ''york''))
   \<and> set (search_timezones_by_city example_host ''york'') = {''America/New_York''}
   \<and> set (search_timezones_by_city example_host ''york'') =
       {tz \<in> set (available_timezones example_host).
          \<exists>xs ys. lower (final_segment tz) = xs @ lower (normalize_city ''york'') @ ys}"
proof -
  have g: "search_timezones_by_city example_host ''gmt'' = [''GMT'', ''Etc/GMT'']"
    by code_simp
  have y: "search_timezones_by_city example_host ''york'' = [''America/New_York'']"
    by code_simp
  have ng: "lower (normalize_city ''gmt'') = ''gmt''" by code_simp
  have ny: "lower (normalize_city ''york'') = ''york''" by code_simp
  have e1: "lower (final_segment ''GMT'') = ''gmt''" by code_simp
  have e2: "lower (final_segment ''Etc/GMT+1'') = [] @ ''gmt'' @ ''+1''" by code_simp
  have cat: "set (available_timezones example_host) = set example_catalog"
    by (simp add: example_host_def)
  have m1: "''GMT'' \<in> set example_catalog" by (simp add: example_catalog_def)
  have m2: "''Etc/GMT+1'' \<in> set example_catalog" by (simp add: example_catalog_def)
  have ex_g: "\<exists>tz \<in> set (available_timezones example_host).
          lower (final_segment tz) = lower (normalize_city ''gmt'')"
    unfolding cat ng using m1 e1 by blast
  have in_p: "''Etc/GMT+1'' \<in> {tz \<in> set (available_timezones example_host).
          \<exists>xs ys. lower (final_segment tz) = xs @ lower (normalize_city ''gmt'') @ ys}"
    unfolding cat ng using m2 e2 by blast
  have no_y: "\<not> (\<exists>tz \<in> set (available_timezones example_host).
          lower (final_segment tz) = lower (normalize_city ''york''))"
    unfolding cat ny example_catalog_def by code_simp
  have sy: "set (search_timezones_by_city example_host ''york'') =
       {tz \<in> set (available_timezones example_host).
          \<exists>xs ys. lower (final_segment tz) = xs @ lower (normalize_city ''york'') @ ys}"
    using exact_before_partial [of example_host "''york''"] no_y by simp
  have sg: "set (search_timezones_by_city example_host ''gmt'') =
       {tz \<in> set (available_timezones example_host).
          lower (final_segment tz) = lower (normalize_city ''gmt'')}"
    using exact_before_partial [of example_host "''gmt''"] ex_g by simp
  have c1: "set (search_timezones_by_city example_host ''gmt'') = {''GMT'', ''Etc/GMT''}"
    by (simp add: g)
  have c5: "''Etc/GMT+1'' \<notin> set (search_timezones_by_city example_host ''gmt'')"
    by (simp add: g)
  have c7: "set (search_timezones_by_city example_host ''york'') = {''America/New_York''}"
    by (simp add: y)
  show ?thesis
    by (intro conjI c1 ex_g sg in_p c5 no_y c7 sy)
qed

text \<open>
  C5. Two queries that differ only in surrounding whitespace, in which separator is
  written between the parts of the name, in how often a separator is repeated, or in
  letter case, get the same candidates on every host; so do \<open>New York\<close>,
  \<open>new_york\<close> and \<open>New-York\<close>.
\<close>

theorem same_city_same_candidates:
  assumes "same_city q q'"
  shows "search_timezones_by_city h q = search_timezones_by_city h q'"
  using assms by (intro search_by_normalized same_city_normalize)

theorem same_city_same_candidates_witness:
  "same_city ''New York'' ''new_york''
   \<and> same_city ''New York'' ''New-York''
   \<and> same_city ''New York'' ''  new__york ''
   \<and> search_timezones_by_city example_host ''New York''
       = search_timezones_by_city example_host ''new_york''
   \<and> search_timezones_by_city example_host ''New York''
       = search_timezones_by_city example_host ''New-York''
   \<and> search_timezones_by_city example_host ''New York''
       = search_timezones_by_city example_host ''  new__york ''
   \<and> search_timezones_by_city example_host ''New York'' = [''America/New_York'']"
proof -
  have sp: "is_sep (CHR '' '')" and hy: "is_sep (CHR ''-'')" and us: "is_sep (CHR ''_'')"
    by (simp_all add: is_sep_def)
  have t1: "has_text ''New''" and t2: "has_text ''York''"
    and t3: "has_text ''new''" and t4: "has_text ''york''"
    by (simp_all add: has_text_def isspace_def)
  have "lower ''New York'' = lower ''new york''"
    by code_simp
  then have a: "same_city ''New York'' ''new york''"
    by (rule same_city.letter_case)
  have b: "same_city ''new york'' ''new_york''"
    using same_city.separator [OF sp us t3 t4] by simp
  have c: "same_city ''new_york'' ''new__york''"
    using same_city.repeated [OF us us t3 t4] by simp
  have d: "same_city ''new__york'' ''  new__york ''"
    using same_city.surround [of "''  ''" "'' ''" "''new__york''"] by simp
  have s1: "same_city ''New York'' ''new_york''"
    using a b by (rule same_city.trans)
  have s2: "same_city ''New York'' ''New-York''"
    using same_city.separator [OF sp hy t1 t2] by simp
  have s3: "same_city ''New York'' ''  new__york ''"
    using s1 c d by (blast intro: same_city.trans)
  have e: "search_timezones_by_city example_host ''New York'' = [''America/New_York'']"
    by code_simp
  show ?thesis
    using s1 s2 s3 e
      same_city_same_candidates [OF s1, of example_host]
      same_city_same_candidates [OF s2, of example_host]
      same_city_same_candidates [OF s3, of example_host]
    by simp
qed

end
